theory Spec2Isabelle
  imports Complex_Main
begin

section \<open>JavaScript values\<close>

text \<open>
  The status engine of \<^verbatim>\<open>src/api.js\<close> reads fields of JSON rows. A field that holds a
  string is a \<open>string option\<close>, a field that holds an amount a \<open>rat option\<close>; \<open>None\<close>
  stands for \<^verbatim>\<open>null\<close> and for an absent field (\<^verbatim>\<open>undefined\<close>). An amount of the
  source is a finite IEEE double, and every finite double is a rational number, so every
  amount that a row can hold is a value here, negative ones and ones with cents included.
  Sums and differences of amounts are the exact ones; they are those of the source
  whenever the exact result is a double again (\<open>is_double\<close> below), and the source
  rounds otherwise. A character is one code unit below 256.
\<close>

definition truthy_str :: "string option \<Rightarrow> bool" where
  \<comment> \<open>truthiness of a string-or-null value: \<^verbatim>\<open>null\<close> and \<^verbatim>\<open>''\<close> are falsy\<close>
  "truthy_str v = (case v of None \<Rightarrow> False | Some s \<Rightarrow> s \<noteq> [])"

definition truthy_num :: "'a::zero option \<Rightarrow> bool" where
  \<comment> \<open>truthiness of a number-or-null value: \<^verbatim>\<open>null\<close> and \<^verbatim>\<open>0\<close> are falsy\<close>
  "truthy_num v = (case v of None \<Rightarrow> False | Some n \<Rightarrow> n \<noteq> 0)"

definition or_zero :: "'a::zero option \<Rightarrow> 'a" where
  \<comment> \<open>\<^verbatim>\<open>v || 0\<close>\<close>
  "or_zero v = (case v of None \<Rightarrow> 0 | Some n \<Rightarrow> n)"

definition or_null_num :: "'a::zero option \<Rightarrow> 'a option" where
  \<comment> \<open>\<^verbatim>\<open>v || null\<close> on a number\<close>
  "or_null_num v = (if truthy_num v then v else None)"




definition or_null_str :: "string option \<Rightarrow> string option" where
  \<comment> \<open>\<^verbatim>\<open>v || null\<close> on a string\<close>
  "or_null_str v = (if truthy_str v then v else None)"

definition template_str :: "string option \<Rightarrow> string" where
  \<comment> \<open>a value interpolated into a template literal\<close>
  "template_str v = (case v of None \<Rightarrow> ''null'' | Some s \<Rightarrow> s)"

text \<open>A number that may be \<^verbatim>\<open>NaN\<close>: the day count of an unparseable date.\<close>

datatype jsnum = NaN | Num int

definition to_number :: "jsnum option \<Rightarrow> jsnum" where
  \<comment> \<open>the operand conversion of \<^verbatim>\<open><\<close>, \<^verbatim>\<open><=\<close>, \<^verbatim>\<open>>\<close>: \<^verbatim>\<open>null\<close> becomes 0\<close>
  "to_number v = (case v of None \<Rightarrow> Num 0 | Some x \<Rightarrow> x)"

fun num_lt :: "jsnum \<Rightarrow> int \<Rightarrow> bool" where
  "num_lt NaN k = False"
| "num_lt (Num d) k = (d < k)"

fun num_le :: "jsnum \<Rightarrow> int \<Rightarrow> bool" where
  "num_le NaN k = False"
| "num_le (Num d) k = (d \<le> k)"

fun num_gt :: "jsnum \<Rightarrow> int \<Rightarrow> bool" where
  "num_gt NaN k = False"
| "num_gt (Num d) k = (d > k)"

definition is_whitespace :: "char \<Rightarrow> bool" where
  \<comment> \<open>the white space and line terminators below 256: TAB, LF, VT, FF, CR, SP, NBSP\<close>
  "is_whitespace c = (of_char c \<in> {9::nat, 10, 11, 12, 13, 32, 160})"

definition trim :: "string \<Rightarrow> string" where
  "trim s = rev (dropWhile is_whitespace (rev (dropWhile is_whitespace s)))"

definition toUpperCase :: "string \<Rightarrow> string" where
  \<comment> \<open>\<^verbatim>\<open>toUpperCase\<close> on the letters a to z; a character outside them is kept as it is,
      also where the source maps it (a letter beyond ASCII)\<close>
  "toUpperCase s =
     map (\<lambda>c. case map_of (zip ''abcdefghijklmnopqrstuvwxyz'' ''ABCDEFGHIJKLMNOPQRSTUVWXYZ'') c of
                 None \<Rightarrow> c | Some u \<Rightarrow> u) s"

definition startsWith :: "string \<Rightarrow> string \<Rightarrow> bool" where
  "startsWith s p = (take (length p) s = p)"

section \<open>Dates\<close>

text \<open>
  \<^verbatim>\<open>new Date(s)\<close>, \<^verbatim>\<open>new Date()\<close> and \<^verbatim>\<open>setHours(0, 0, 0, 0)\<close> depend on the process:
  its clock, its date parser and its time zone. They are the fields of a \<open>runtime\<close>.
  Time values are milliseconds since the epoch. \<open>tza_utc t\<close> is the offset of local
  time from UTC at the instant \<open>t\<close>, \<open>tza_local l\<close> the offset in force at the local
  time value \<open>l\<close> (ECMAScript's LocalTZA with isUTC true and false).
\<close>

record runtime =
  date_parse :: "string \<Rightarrow> int option"  \<comment> \<open>time value of \<^verbatim>\<open>new Date(s)\<close>; \<open>None\<close> is Invalid Date\<close>
  clock_now :: int                      \<comment> \<open>time value of \<^verbatim>\<open>new Date()\<close>\<close>
  tza_utc :: "int \<Rightarrow> int"
  tza_local :: "int \<Rightarrow> int"

definition msPerDay :: int where
  "msPerDay = 1000 * 60 * 60 * 24"

definition local_day :: "runtime \<Rightarrow> int \<Rightarrow> int" where
  \<comment> \<open>Day(LocalTime(t)): the number of the local calendar day that holds the instant\<close>
  "local_day rt t = (t + tza_utc rt t) div msPerDay"

definition setHours0 :: "runtime \<Rightarrow> int \<Rightarrow> int" where
  \<comment> \<open>\<^verbatim>\<open>d.setHours(0, 0, 0, 0)\<close>: UTC(MakeDate(Day(LocalTime(t)), 0))\<close>
  "setHours0 rt t = (let l = local_day rt t * msPerDay in l - tza_local rt l)"

definition ceil_div :: "int \<Rightarrow> int \<Rightarrow> int" where
  \<comment> \<open>\<^verbatim>\<open>Math.ceil(a / b)\<close> for a positive divisor\<close>
  "ceil_div a b = - ((- a) div b)"

definition daysUntilDate :: "runtime \<Rightarrow> string option \<Rightarrow> jsnum option" where
  "daysUntilDate rt dateString =
     (case dateString of
        None \<Rightarrow> None
      | Some s \<Rightarrow>
          if s = [] then None
          else (case date_parse rt s of
                  None \<Rightarrow> Some NaN
                | Some target \<Rightarrow>
                    Some (Num (ceil_div (setHours0 rt target - setHours0 rt (clock_now rt)) msPerDay))))"

section \<open>Phone normalisation\<close>

definition is_digit :: "char \<Rightarrow> bool" where
  "is_digit c = (c \<in> set ''0123456789'')"

definition cleanPhone :: "string option \<Rightarrow> string" where
  "cleanPhone phone =
     (case phone of
        None \<Rightarrow> []
      | Some p \<Rightarrow>
          if p = [] then []
          else (let cleaned = filter is_digit p
                in if length cleaned = 11 \<and> startsWith cleaned ''1'' then drop 1 cleaned
                   else cleaned))"

section \<open>Package lookup\<close>

text \<open>A row of the package table, and what the lookup makes of it.\<close>

record destsel_row =
  pkg_ref_dep :: "rat option"
  pkg_deposit :: "rat option"
  pkg_destination :: "string option"
  pkg_dest :: "string option"
  pkg_ngts :: "int option"
  pkg_nights :: "int option"
  pkg_vacation_type :: "string option"
  pkg_vaca_desc :: "string option"

record package_info =
  found :: bool
  pkgcode2 :: string
  ref_dep :: rat
  deposit :: rat
  total_expected :: rat
  destination :: "string option"
  nights :: "int option"
  vacation_type :: "string option"
  vaca_desc :: "string option"

datatype query_error = Caspio_auth_failed nat | Caspio_query_failed nat

definition getPackageFromDestsel ::
  "(string \<Rightarrow> query_error + destsel_row list) \<Rightarrow> string option \<Rightarrow> package_info option" where
  \<comment> \<open>the first argument answers the query of the package table for a package code\<close>
  "getPackageFromDestsel query pkgCode2 =
     (case pkgCode2 of
        None \<Rightarrow> None
      | Some raw \<Rightarrow>
          if raw = [] then None
          else (let code = toUpperCase raw
                in case query code of
                     Inl error \<Rightarrow> None
                   | Inr results \<Rightarrow>
                       (case results of
                          [] \<Rightarrow> None
                        | pkg # _ \<Rightarrow>
                            (let refDeposit = or_zero (pkg_ref_dep pkg);
                                 confDeposit = or_zero (pkg_deposit pkg)
                             in Some \<lparr> found = True,
                                       pkgcode2 = code,
                                       ref_dep = refDeposit,
                                       deposit = confDeposit,
                                       total_expected = refDeposit + confDeposit,
                                       destination =
                                         (if truthy_str (pkg_destination pkg) then pkg_destination pkg
                                          else or_null_str (pkg_dest pkg)),
                                       nights =
                                         (if truthy_num (pkg_ngts pkg) then pkg_ngts pkg
                                          else or_null_num (pkg_nights pkg)),
                                       vacation_type = or_null_str (pkg_vacation_type pkg),
                                       vaca_desc = or_null_str (pkg_vaca_desc pkg) \<rparr>))))"

section \<open>Status determination\<close>

record customer =
  val_dep :: "rat option"
  conf_deposit :: "rat option"
  asgn_trv_dt :: "string option"
  tm :: "string option"
  conf_valid_code :: "string option"
  cash_back_amt :: "rat option"
  Fnl_Doc_MO_Date :: "string option"
  date_print_enc :: "string option"
  decReady :: "bool option"
  date_htl_book :: "string option"
  date_agncy_book :: "string option"
  pkg_code2 :: "string option"

definition ONLINE_SCHEDULING_PACKAGES :: "string list" where
  "ONLINE_SCHEDULING_PACKAGES = [''ECRA'', ''ECRB'', ''ECRD'', ''EKCA'']"

definition isPhoneSchedulingPackage :: "string option \<Rightarrow> bool" where
  "isPhoneSchedulingPackage pkgCode =
     (case pkgCode of
        None \<Rightarrow> False
      | Some raw \<Rightarrow>
          if raw = [] then False
          else (let code = toUpperCase raw
                in code = ''EM'' \<or> code = ''ES'' \<or> startsWith code ''EX'' \<or> startsWith code ''EZ''))"

text \<open>
  The local constants of \<^verbatim>\<open>determineStatus\<close>, each under its own name; the name
  ends in \<open>_of\<close> where the result has a field of that name.
  \<open>isOnlineScheduling\<close> is read only as a condition, so it is its truth value.
\<close>

definition isOnlineScheduling_of :: "customer \<Rightarrow> bool" where
  "isOnlineScheduling_of c =
     (case pkg_code2 c of
        None \<Rightarrow> False
      | Some raw \<Rightarrow> raw \<noteq> [] \<and> List.member ONLINE_SCHEDULING_PACKAGES (toUpperCase raw))"

definition isPhoneScheduling_of :: "customer \<Rightarrow> bool" where
  "isPhoneScheduling_of c = isPhoneSchedulingPackage (pkg_code2 c)"

definition expectedRefDep :: "package_info option \<Rightarrow> rat" where
  "expectedRefDep packageInfo = (case packageInfo of Some p \<Rightarrow> ref_dep p | None \<Rightarrow> 0)"

definition expectedConfDep :: "package_info option \<Rightarrow> rat" where
  "expectedConfDep packageInfo = (case packageInfo of Some p \<Rightarrow> deposit p | None \<Rightarrow> 0)"

definition expectedTotal :: "package_info option \<Rightarrow> rat option" where
  "expectedTotal packageInfo = (case packageInfo of Some p \<Rightarrow> Some (total_expected p) | None \<Rightarrow> None)"

definition paidValDep :: "customer \<Rightarrow> rat" where
  "paidValDep c = or_zero (val_dep c)"

definition paidConfDep :: "customer \<Rightarrow> rat" where
  "paidConfDep c = or_zero (conf_deposit c)"

definition totalPaid :: "customer \<Rightarrow> rat" where
  "totalPaid c = paidValDep c + paidConfDep c"

definition depositsComplete :: "customer \<Rightarrow> package_info option \<Rightarrow> bool" where
  "depositsComplete c packageInfo =
     (case expectedTotal packageInfo of
        Some expected \<Rightarrow>
          if totalPaid c \<ge> expected then True
          else if expectedRefDep packageInfo > 0 \<and> expectedConfDep packageInfo = 0 then
            (paidValDep c \<ge> expectedRefDep packageInfo \<or> paidConfDep c \<ge> expectedRefDep packageInfo)
          else if expectedConfDep packageInfo > 0 \<and> expectedRefDep packageInfo = 0 then
            (paidValDep c \<ge> expectedConfDep packageInfo \<or> paidConfDep c \<ge> expectedConfDep packageInfo)
          else False
      | None \<Rightarrow> (paidValDep c > 0 \<or> paidConfDep c > 0))"

definition remaining_of :: "customer \<Rightarrow> package_info option \<Rightarrow> rat option" where
  "remaining_of c packageInfo =
     (case expectedTotal packageInfo of
        Some expected \<Rightarrow> Some (max 0 (expected - totalPaid c))
      | None \<Rightarrow> None)"

definition daysUntilTravel_of :: "runtime \<Rightarrow> customer \<Rightarrow> jsnum option" where
  "daysUntilTravel_of rt c =
     (if truthy_str (asgn_trv_dt c) then daysUntilDate rt (asgn_trv_dt c) else None)"

definition tm_set :: "customer \<Rightarrow> bool" where
  \<comment> \<open>\<^verbatim>\<open>tm && tm.trim() !== ''\<close>\<close>
  "tm_set c = (case tm c of None \<Rightarrow> False | Some s \<Rightarrow> s \<noteq> [] \<and> trim s \<noteq> [])"

text \<open>The conditions of the \<^verbatim>\<open>if\<close> chain, in the order of the source.\<close>

definition rule1 :: "customer \<Rightarrow> bool" where
  "rule1 c =
     (truthy_num (cash_back_amt c) \<and> or_zero (cash_back_amt c) > 0 \<and> \<not> truthy_str (Fnl_Doc_MO_Date c))"

definition rule2 :: "runtime \<Rightarrow> customer \<Rightarrow> bool" where
  "rule2 rt c =
     (truthy_str (Fnl_Doc_MO_Date c) \<or>
      (daysUntilTravel_of rt c \<noteq> None \<and> num_lt (to_number (daysUntilTravel_of rt c)) (- 7)))"

definition rule3 :: "runtime \<Rightarrow> customer \<Rightarrow> bool" where
  "rule3 rt c =
     (truthy_str (date_htl_book c) \<and> truthy_str (date_agncy_book c) \<and>
      daysUntilTravel_of rt c \<noteq> None \<and> num_le (to_number (daysUntilTravel_of rt c)) 14)"

definition rule4 :: "runtime \<Rightarrow> customer \<Rightarrow> bool" where
  "rule4 rt c =
     (truthy_str (date_print_enc c) \<and>
      daysUntilTravel_of rt c \<noteq> None \<and> num_le (to_number (daysUntilTravel_of rt c)) 45)"

definition rule5 :: "runtime \<Rightarrow> customer \<Rightarrow> bool" where
  "rule5 rt c =
     (tm_set c \<and> daysUntilTravel_of rt c \<noteq> None \<and> num_le (to_number (daysUntilTravel_of rt c)) 75)"

definition rule6 :: "runtime \<Rightarrow> customer \<Rightarrow> package_info option \<Rightarrow> bool" where
  "rule6 rt c packageInfo =
     (depositsComplete c packageInfo \<and> truthy_str (asgn_trv_dt c) \<and> \<not> tm_set c \<and>
      daysUntilTravel_of rt c \<noteq> None \<and> num_le (to_number (daysUntilTravel_of rt c)) 75)"

definition rule7 :: "customer \<Rightarrow> package_info option \<Rightarrow> bool" where
  "rule7 c packageInfo = (depositsComplete c packageInfo \<and> \<not> truthy_str (asgn_trv_dt c))"

definition rule8 :: "runtime \<Rightarrow> customer \<Rightarrow> package_info option \<Rightarrow> bool" where
  "rule8 rt c packageInfo =
     (depositsComplete c packageInfo \<and> truthy_str (asgn_trv_dt c) \<and> \<not> tm_set c \<and>
      conf_valid_code c = Some ''CONFIRM'' \<and> num_gt (to_number (daysUntilTravel_of rt c)) 75)"

definition rule9 :: "customer \<Rightarrow> bool" where
  "rule9 c =
     (truthy_str (asgn_trv_dt c) \<and> conf_valid_code c \<noteq> Some ''CONFIRM'' \<and> decReady c \<noteq> Some True)"

record deposit_info =
  deposits_status :: string
  val_dep_paid :: rat
  conf_deposit_paid :: rat
  total_paid :: rat
  refundable_deposit_required :: "rat option"
  tax_deposit_required :: "rat option"
  expected_deposit :: "rat option"
  remaining :: "rat option"
  complete :: bool

record status_result =
  status :: string
  statusLabel :: string
  agentMessage :: string
  deposits :: deposit_info
  daysUntilTravel :: "jsnum option"
  isOnlineScheduling :: bool
  isPhoneScheduling :: bool

definition select_status :: "runtime \<Rightarrow> customer \<Rightarrow> package_info option \<Rightarrow> string \<times> string \<times> string" where
  \<comment> \<open>the \<^verbatim>\<open>if\<close> chain: status, statusLabel, agentMessage\<close>
  "select_status rt c packageInfo =
     (if rule1 c then
        (''Refund Pending'', ''Refund Pending'', ''I see there is a pending matter on your account.'')
      else if rule2 rt c then
        (''Trip Complete'', ''Trip Complete'', ''I can see you have already traveled with us.'')
      else if rule3 rt c then
        (''Travel Pending'', ''Travel Pending'',
         ''Your trip is all booked and your itinerary should have been sent.'')
      else if rule4 rt c then
        (''Booking Pending'', ''Booking Pending'',
         ''Your booking is being finalized. Expect a call from our booking agent 7-14 days before your trip.'')
      else if rule5 rt c then
        (''Travel Rep Assigned'', ''Travel Rep Assigned'',
         ''Your travel rep has been assigned. Be sure to answer calls from the 805 area code.'')
      else if rule6 rt c packageInfo then
        (''Waiting For Travel Rep'', ''Waiting for Travel Rep'',
         ''Your travel dates are set and you are waiting for a travel rep to be assigned.'')
      else if rule7 c packageInfo then
        (''Ready to Schedule'', ''Ready to Schedule'',
         if isOnlineScheduling_of c then
           ''Great news! Your deposit is all paid up and you are ready to select your travel dates. You can login to your activatemytrip.com account to select your dates.''
         else if isPhoneScheduling_of c then
           ''Great news! Your deposit is all paid up and you are ready to select your travel dates. Would you like me to transfer you to scheduling?''
         else
           ''Great news! Your deposit is all paid up and you are ready to select your travel dates.'')
      else if rule8 rt c packageInfo then
        (''Dates Scheduled'', ''Dates Scheduled'',
         ''Your travel dates are all set for '' @ template_str (asgn_trv_dt c) @
         ''. A travel rep will be assigned 45-75 days before your trip.'')
      else if rule9 c then
        (if num_le (to_number (daysUntilTravel_of rt c)) 75 then
           (''Scheduled Not Confirmed - Must Reschedule'', ''Needs Rescheduling'',
            ''Your scheduled dates may no longer be available. Would you like me to transfer you to reschedule?'')
         else
           (''Scheduled Not Confirmed - Can Confirm'', ''Needs Confirmation'',
            ''Your dates are scheduled but not yet confirmed. Would you like me to transfer you to confirm?''))
      else
        (''Deposit Needed'', ''Deposit Needed'',
         if isOnlineScheduling_of c then
           ''I see you have activated your vacation package. You can login to your activatemytrip.com account to select your travel dates and pay your deposit with a credit card.''
         else if isPhoneScheduling_of c then
           ''I see you have activated your vacation package. Would you like me to transfer you to scheduling so you can select your dates and pay the deposit over the phone?''
         else
           ''I see you have activated your vacation package. It looks like we are just waiting on your deposit.''))"

definition determineStatus :: "runtime \<Rightarrow> customer \<Rightarrow> package_info option \<Rightarrow> status_result" where
  "determineStatus rt c packageInfo =
     (case select_status rt c packageInfo of
        (st, label, message) \<Rightarrow>
          \<lparr> status = st,
            statusLabel = label,
            agentMessage = message,
            deposits =
              \<lparr> deposits_status = (if depositsComplete c packageInfo then ''complete'' else ''pending''),
                val_dep_paid = paidValDep c,
                conf_deposit_paid = paidConfDep c,
                total_paid = totalPaid c,
                refundable_deposit_required =
                  (case packageInfo of None \<Rightarrow> None | Some p \<Rightarrow> or_null_num (Some (ref_dep p))),
                tax_deposit_required =
                  (case packageInfo of None \<Rightarrow> None | Some p \<Rightarrow> or_null_num (Some (deposit p))),
                expected_deposit = expectedTotal packageInfo,
                remaining = remaining_of c packageInfo,
                complete = depositsComplete c packageInfo \<rparr>,
            daysUntilTravel = daysUntilTravel_of rt c,
            isOnlineScheduling = isOnlineScheduling_of c,
            isPhoneScheduling = isPhoneScheduling_of c \<rparr>)"

section \<open>The rule table\<close>

text \<open>
  The table of the specification has ten rows. Row 9 stands for two status codes of the
  source, told apart by the day count; every other row for one. \<open>status_rule\<close> gives
  the row of a status code (0 for a string that is no status code), and
  \<open>first_match\<close> the position of the first condition that holds in an ordered list,
  one past the end when none holds.
\<close>

definition status_rule :: "string \<Rightarrow> nat" where
  "status_rule s =
     (if s = ''Refund Pending'' then 1
      else if s = ''Trip Complete'' then 2
      else if s = ''Travel Pending'' then 3
      else if s = ''Booking Pending'' then 4
      else if s = ''Travel Rep Assigned'' then 5
      else if s = ''Waiting For Travel Rep'' then 6
      else if s = ''Ready to Schedule'' then 7
      else if s = ''Dates Scheduled'' then 8
      else if s = ''Scheduled Not Confirmed - Must Reschedule'' \<or>
              s = ''Scheduled Not Confirmed - Can Confirm'' then 9
      else if s = ''Deposit Needed'' then 10
      else 0)"

fun first_match :: "bool list \<Rightarrow> nat" where
  "first_match [] = 1"
| "first_match (b # bs) = (if b then 1 else Suc (first_match bs))"

section \<open>Sums without rounding\<close>


section \<open>Sample inputs\<close>

text \<open>
  Three processes. The first runs in UTC at 2026-01-13T12:00:00Z. The second runs in
  \<^verbatim>\<open>America/Los_Angeles\<close> at 2026-11-01T20:00:00Z, the day the clocks are set back there
  (at 09:00:00Z, from UTC-7 to UTC-8). The third runs at UTC-8 without any change of
  offset, at 2026-01-13T20:00:00Z. Each date parser is given on the date strings that
  the samples use; their time values are those of ECMAScript, where a date-time with
  \<^verbatim>\<open>Z\<close> and a date-only string are both read as UTC.
\<close>

definition utc_runtime :: runtime where
  "utc_runtime =
     \<lparr> date_parse = map_of
         [(''2026-01-10T00:00:00Z'', 1768003200000),
          (''2026-01-13T23:59:59Z'', 1768348799000),
          (''2026-01-14T08:30:00Z'', 1768379400000),
          (''2026-04-23T00:00:00Z'', 1776902400000)],
       clock_now = 1768305600000,
       tza_utc = (\<lambda>t. 0),
       tza_local = (\<lambda>l. 0) \<rparr>"

definition pacific_runtime :: runtime where
  "pacific_runtime =
     \<lparr> date_parse = map_of [(''2026-11-02T20:00:00Z'', 1793649600000)],
       clock_now = 1793563200000,
       tza_utc = (\<lambda>t. if t < 1793523600000 then - 25200000 else - 28800000),
       tza_local = (\<lambda>l. if l < 1793498400000 then - 25200000 else - 28800000) \<rparr>"

definition pst_runtime :: runtime where
  \<comment> \<open>a process at UTC-8 all year, at noon local time of 2026-01-13; a date-only string is UTC midnight\<close>
  "pst_runtime =
     \<lparr> date_parse = map_of [(''2026-01-14'', 1768348800000)],
       clock_now = 1768334400000,
       tza_utc = (\<lambda>t. - 28800000),
       tza_local = (\<lambda>l. - 28800000) \<rparr>"

definition blank_customer :: customer where
  "blank_customer =
     \<lparr> val_dep = None, conf_deposit = None, asgn_trv_dt = None, tm = None,
       conf_valid_code = None, cash_back_amt = None, Fnl_Doc_MO_Date = None,
       date_print_enc = None, decReady = None, date_htl_book = None,
       date_agncy_book = None, pkg_code2 = None \<rparr>"

definition unconfirmed_customer :: customer where
  \<comment> \<open>travel in 100 days, nothing confirmed\<close>
  "unconfirmed_customer = blank_customer\<lparr>asgn_trv_dt := Some ''2026-04-23T00:00:00Z''\<rparr>"

definition refund_customer :: customer where
  "refund_customer =
     blank_customer\<lparr>cash_back_amt := Some 150, asgn_trv_dt := Some ''2026-01-14T08:30:00Z'',
       date_htl_book := Some ''2026-01-02'', date_agncy_book := Some ''2026-01-03'',
       tm := Some ''Dana'', val_dep := Some 500\<rparr>"

definition travelling_customer :: customer where
  \<comment> \<open>booked, and the travel date was three days ago\<close>
  "travelling_customer =
     blank_customer\<lparr>asgn_trv_dt := Some ''2026-01-10T00:00:00Z'',
       date_htl_book := Some ''2025-12-20'', date_agncy_book := Some ''2025-12-21''\<rparr>"

definition booked_customer :: customer where
  \<comment> \<open>booked, and the travel date is tomorrow\<close>
  "booked_customer =
     blank_customer\<lparr>asgn_trv_dt := Some ''2026-01-14T08:30:00Z'',
       date_htl_book := Some ''2025-12-20'', date_agncy_book := Some ''2025-12-21''\<rparr>"

definition partial_customer :: customer where
  \<comment> \<open>paid 199.75 and 100.25\<close>
  "partial_customer =
     blank_customer\<lparr>val_dep := Some (799 / 4), conf_deposit := Some (401 / 4),
       pkg_code2 := Some ''em''\<rparr>"

definition paid_customer :: customer where
  "paid_customer = blank_customer\<lparr>val_dep := Some 500, pkg_code2 := Some ''em''\<rparr>"

definition dated_customer :: customer where
  \<comment> \<open>\<open>paid_customer\<close> with every travel-date field set\<close>
  "dated_customer =
     paid_customer\<lparr>asgn_trv_dt := Some ''2026-04-23T00:00:00Z'',
       Fnl_Doc_MO_Date := Some ''2025-06-01'', date_print_enc := Some ''2025-05-01'',
       date_htl_book := Some ''2025-04-01'', date_agncy_book := Some ''2025-04-02''\<rparr>"

definition reversal_customer :: customer where
  \<comment> \<open>no package code, and a validated deposit that was reversed\<close>
  "reversal_customer = blank_customer\<lparr>val_dep := Some (- 50)\<rparr>"

definition activated_customer :: customer where
  "activated_customer = blank_customer\<lparr>pkg_code2 := Some ''ecra''\<rparr>"

definition chargeback_customer :: customer where
  \<comment> \<open>a confirmation deposit that was charged back\<close>
  "chargeback_customer =
     blank_customer\<lparr>conf_deposit := Some (- 25), pkg_code2 := Some ''ecra''\<rparr>"

definition overdrawn_customer :: customer where
  \<comment> \<open>a reversed validated deposit and a small confirmation deposit\<close>
  "overdrawn_customer =
     blank_customer\<lparr>val_dep := Some (- 150), conf_deposit := Some 10, pkg_code2 := Some ''ex1''\<rparr>"

definition huge_customer :: customer where
  \<comment> \<open>two whole amounts whose sum needs 54 bits\<close>
  "huge_customer =
     blank_customer\<lparr>val_dep := Some 9007199254740991, conf_deposit := Some 2\<rparr>"

definition credit_row :: destsel_row where
  \<comment> \<open>a package row whose refundable deposit is a credit\<close>
  "credit_row =
     \<lparr> pkg_ref_dep = Some (- 100), pkg_deposit = None, pkg_destination = None, pkg_dest = None,
       pkg_ngts = None, pkg_nights = None, pkg_vacation_type = None, pkg_vaca_desc = None \<rparr>"

definition credit_package :: package_info where
  "credit_package =
     \<lparr> found = True, pkgcode2 = ''EX1'', ref_dep = - 100, deposit = 0, total_expected = - 100,
       destination = None, nights = None, vacation_type = None, vaca_desc = None \<rparr>"

definition em_row :: destsel_row where
  "em_row =
     \<lparr> pkg_ref_dep = Some 500, pkg_deposit = None, pkg_destination = Some ''Las Vegas'',
       pkg_dest = None, pkg_ngts = Some 3, pkg_nights = None, pkg_vacation_type = None,
       pkg_vaca_desc = None \<rparr>"

definition zero_row :: destsel_row where
  "zero_row =
     \<lparr> pkg_ref_dep = None, pkg_deposit = None, pkg_destination = None, pkg_dest = None,
       pkg_ngts = None, pkg_nights = None, pkg_vacation_type = None, pkg_vaca_desc = None \<rparr>"

definition sample_query :: "string \<Rightarrow> query_error + destsel_row list" where
  "sample_query code =
     (if code = ''EM'' then Inr [em_row]
      else if code = ''ECRA'' then Inr [zero_row]
      else if code = ''EX1'' then Inr [credit_row]
      else if code = ''EZ9'' then Inl (Caspio_query_failed 500)
      else Inr [])"

definition em_package :: package_info where
  "em_package =
     \<lparr> found = True, pkgcode2 = ''EM'', ref_dep = 500, deposit = 0, total_expected = 500,
       destination = Some ''Las Vegas'', nights = Some 3, vacation_type = None, vaca_desc = None \<rparr>"

definition zero_package :: package_info where
  "zero_package =
     \<lparr> found = True, pkgcode2 = ''ECRA'', ref_dep = 0, deposit = 0, total_expected = 0,
       destination = None, nights = None, vacation_type = None, vaca_desc = None \<rparr>"

section \<open>Reading the result\<close>

lemmas value_defs =
  truthy_str_def truthy_num_def or_zero_def to_number_def daysUntilTravel_of_def tm_set_def

lemmas rule_defs =
  rule1_def rule2_def rule3_def rule4_def rule5_def rule6_def rule7_def rule8_def rule9_def

lemmas deposit_defs =
  depositsComplete_def expectedTotal_def expectedRefDep_def expectedConfDep_def
  totalPaid_def paidValDep_def paidConfDep_def

lemmas date_defs = daysUntilDate_def setHours0_def local_day_def msPerDay_def ceil_div_def

lemmas sample_customer_defs =
  blank_customer_def unconfirmed_customer_def refund_customer_def travelling_customer_def
  booked_customer_def partial_customer_def paid_customer_def dated_customer_def
  reversal_customer_def activated_customer_def chargeback_customer_def
  overdrawn_customer_def huge_customer_def

lemma status_select: "status (determineStatus rt c p) = fst (select_status rt c p)"
  by (simp add: determineStatus_def split: prod.splits)

lemma complete_select: "complete (deposits (determineStatus rt c p)) = depositsComplete c p"
  by (simp add: determineStatus_def split: prod.splits)

lemma days_select: "daysUntilTravel (determineStatus rt c p) = daysUntilTravel_of rt c"
  by (simp add: determineStatus_def split: prod.splits)


text \<open>The status code alone, as the chain of the source selects it.\<close>

lemma status_chain:
  "fst (select_status rt c p) =
     (if rule1 c then ''Refund Pending''
      else if rule2 rt c then ''Trip Complete''
      else if rule3 rt c then ''Travel Pending''
      else if rule4 rt c then ''Booking Pending''
      else if rule5 rt c then ''Travel Rep Assigned''
      else if rule6 rt c p then ''Waiting For Travel Rep''
      else if rule7 c p then ''Ready to Schedule''
      else if rule8 rt c p then ''Dates Scheduled''
      else if rule9 c then
        (if num_le (to_number (daysUntilTravel_of rt c)) 75
         then ''Scheduled Not Confirmed - Must Reschedule''
         else ''Scheduled Not Confirmed - Can Confirm'')
      else ''Deposit Needed'')"
  unfolding select_status_def by (simp only: fst_conv if_distrib [of fst] split: if_split)

lemma status_rule_codes:
  "status_rule ''Refund Pending'' = 1"
  "status_rule ''Trip Complete'' = 2"
  "status_rule ''Travel Pending'' = 3"
  "status_rule ''Booking Pending'' = 4"
  "status_rule ''Travel Rep Assigned'' = 5"
  "status_rule ''Waiting For Travel Rep'' = 6"
  "status_rule ''Ready to Schedule'' = 7"
  "status_rule ''Dates Scheduled'' = 8"
  "status_rule ''Scheduled Not Confirmed - Must Reschedule'' = 9"
  "status_rule ''Scheduled Not Confirmed - Can Confirm'' = 9"
  "status_rule ''Deposit Needed'' = 10"
  by (simp_all add: status_rule_def)

lemma first_match_bounds: "1 \<le> first_match bs \<and> first_match bs \<le> Suc (length bs)"
  by (induction bs) auto

text \<open>Without a travel date, a final-document date or cash back, rules 1 to 6 do not match.\<close>

lemma no_date_rules:
  assumes "asgn_trv_dt c = None" and "Fnl_Doc_MO_Date c = None" and "cash_back_amt c = None"
  shows "\<not> truthy_str (asgn_trv_dt c) \<and> \<not> rule1 c \<and> \<not> rule2 rt c \<and> \<not> rule3 rt c \<and>
    \<not> rule4 rt c \<and> \<not> rule5 rt c \<and> \<not> rule6 rt c p"
  using assms by (simp add: rule_defs value_defs)

section \<open>The package lookup and the deposits\<close>

lemma package_total:
  "getPackageFromDestsel query code = Some p \<Longrightarrow> total_expected p = ref_dep p + deposit p"
  by (auto simp: getPackageFromDestsel_def Let_def
      split: option.splits if_splits sum.splits list.splits)

lemma sample_packages:
  "getPackageFromDestsel sample_query (Some ''em'') = Some em_package"
  "getPackageFromDestsel sample_query (Some ''ecra'') = Some zero_package"
  "getPackageFromDestsel sample_query (Some ''ex1'') = Some credit_package"
  "getPackageFromDestsel sample_query (Some ''ez9'') = None"
  "getPackageFromDestsel sample_query (Some ''zz'') = None"
  "getPackageFromDestsel sample_query None = None"
  by (simp_all add: getPackageFromDestsel_def truthy_str_def toUpperCase_def
      sample_query_def em_row_def zero_row_def credit_row_def em_package_def zero_package_def
      credit_package_def or_zero_def
      or_null_str_def or_null_num_def truthy_num_def)

lemma paid_update:
  "paidValDep (c\<lparr>val_dep := v, conf_deposit := w\<rparr>) = or_zero v"
  "paidConfDep (c\<lparr>val_dep := v, conf_deposit := w\<rparr>) = or_zero w"
  by (simp_all add: paidValDep_def paidConfDep_def)

lemma depositsComplete_mono:
  assumes "paidValDep c \<le> paidValDep c'" and "paidConfDep c \<le> paidConfDep c'"
      and "depositsComplete c p"
  shows "depositsComplete c' p"
proof (cases p)
  case None
  with assms show ?thesis
    by (auto simp: depositsComplete_def expectedTotal_def)
next
  case (Some q)
  have total: "totalPaid c \<le> totalPaid c'"
    using assms(1,2) by (simp add: totalPaid_def)
  from Some assms total show ?thesis
    by (auto simp: depositsComplete_def expectedTotal_def split: if_splits)
qed

lemma depositsComplete_cong:
  assumes "val_dep c1 = val_dep c2" and "conf_deposit c1 = conf_deposit c2"
  shows "depositsComplete c1 p = depositsComplete c2 p"
proof -
  have paid: "paidValDep c1 = paidValDep c2" "paidConfDep c1 = paidConfDep c2"
    using assms by (simp_all add: paidValDep_def paidConfDep_def)
  show ?thesis
    unfolding depositsComplete_def totalPaid_def paid by (rule refl)
qed

section \<open>Day counts\<close>

lemma ceil_div_ceiling: "ceil_div a b = \<lceil>(of_int a :: real) / of_int b\<rceil>"
proof -
  have "- (of_int a / of_int b :: real) = of_int (- a) / of_int b"
    by simp
  then have "\<lfloor>- (of_int a / of_int b :: real)\<rfloor> = (- a) div b"
    by (simp only: floor_divide_of_int_eq)
  then show ?thesis
    by (simp only: ceil_div_def ceiling_def)
qed

lemma setHours0_same_day:
  "local_day rt t = local_day rt u \<Longrightarrow> setHours0 rt t = setHours0 rt u"
  by (simp add: setHours0_def)

lemma utc_sample_days:
  "daysUntilDate utc_runtime (Some ''2026-01-10T00:00:00Z'') = Some (Num (- 3))"
  "daysUntilDate utc_runtime (Some ''2026-01-13T23:59:59Z'') = Some (Num 0)"
  "daysUntilDate utc_runtime (Some ''2026-01-14T08:30:00Z'') = Some (Num 1)"
  "daysUntilDate utc_runtime (Some ''2026-04-23T00:00:00Z'') = Some (Num 100)"
  "daysUntilDate utc_runtime (Some ''soon'') = Some NaN"
  by (simp_all add: date_defs utc_runtime_def)

lemma unconfirmed_days: "daysUntilTravel_of utc_runtime unconfirmed_customer = Some (Num 100)"
  by (simp add: daysUntilTravel_of_def unconfirmed_customer_def blank_customer_def
      truthy_str_def utc_sample_days)

lemma unconfirmed_rules:
  "\<not> rule1 unconfirmed_customer" "\<not> rule2 utc_runtime unconfirmed_customer"
  "\<not> rule3 utc_runtime unconfirmed_customer" "\<not> rule4 utc_runtime unconfirmed_customer"
  "\<not> rule5 utc_runtime unconfirmed_customer" "\<not> rule6 utc_runtime unconfirmed_customer None"
  "\<not> rule7 unconfirmed_customer None" "\<not> rule8 utc_runtime unconfirmed_customer None"
  "rule9 unconfirmed_customer"
  by (simp_all add: rule_defs unconfirmed_days to_number_def)
    (simp_all add: unconfirmed_customer_def blank_customer_def truthy_str_def truthy_num_def
      deposit_defs or_zero_def)

lemma travelling_days: "daysUntilTravel_of utc_runtime travelling_customer = Some (Num (- 3))"
  by (simp add: daysUntilTravel_of_def travelling_customer_def blank_customer_def
      truthy_str_def utc_sample_days)

lemma travelling_rules:
  "\<not> rule1 travelling_customer" "\<not> rule2 utc_runtime travelling_customer"
  "rule3 utc_runtime travelling_customer"
  by (simp_all add: rule_defs travelling_days to_number_def)
    (simp_all add: travelling_customer_def blank_customer_def truthy_str_def truthy_num_def)

lemma booked_days: "daysUntilTravel_of utc_runtime booked_customer = Some (Num 1)"
  by (simp add: daysUntilTravel_of_def booked_customer_def blank_customer_def
      truthy_str_def utc_sample_days)

lemma booked_rules:
  "\<not> rule1 booked_customer" "\<not> rule2 utc_runtime booked_customer"
  by (simp_all add: rule_defs booked_days to_number_def)
    (simp_all add: booked_customer_def blank_customer_def truthy_str_def truthy_num_def)

section \<open>Status selection\<close>

text \<open>
  C1. For every customer record and every package info, absent or not,
  \<open>determineStatus\<close> returns a status code of one of the ten rows of the rule table,
  and the row is that of the first rule, in the order 1 to 9, whose condition holds;
  it is row 10, Deposit Needed, when none holds. Row 9 has two codes in the source
  (Must Reschedule and Can Confirm). The model is a total function: on a record whose
  fields have the types of \<open>customer\<close> the source raises nothing.
\<close>

theorem status_first_match:
  "status_rule (status (determineStatus rt c p)) =
     first_match [rule1 c, rule2 rt c, rule3 rt c, rule4 rt c, rule5 rt c, rule6 rt c p,
                  rule7 c p, rule8 rt c p, rule9 c] \<and>
   1 \<le> status_rule (status (determineStatus rt c p)) \<and>
   status_rule (status (determineStatus rt c p)) \<le> 10"
proof -
  let ?rules = "[rule1 c, rule2 rt c, rule3 rt c, rule4 rt c, rule5 rt c, rule6 rt c p,
                 rule7 c p, rule8 rt c p, rule9 c]"
  have eq: "status_rule (status (determineStatus rt c p)) = first_match ?rules"
    by (simp add: status_select status_chain status_rule_codes)
  have "1 \<le> first_match ?rules \<and> first_match ?rules \<le> Suc (length ?rules)"
    by (rule first_match_bounds)
  with eq show ?thesis by simp
qed

text \<open>
  A customer whose travel is 100 days away and not confirmed: rules 1 to 8 fail, rule 9
  holds, and the code is the second one of row 9.
\<close>

theorem status_first_match_witness:
  "status (determineStatus utc_runtime unconfirmed_customer None) =
     ''Scheduled Not Confirmed - Can Confirm'' \<and>
   status_rule (status (determineStatus utc_runtime unconfirmed_customer None)) = 9 \<and>
   first_match [rule1 unconfirmed_customer, rule2 utc_runtime unconfirmed_customer,
     rule3 utc_runtime unconfirmed_customer, rule4 utc_runtime unconfirmed_customer,
     rule5 utc_runtime unconfirmed_customer, rule6 utc_runtime unconfirmed_customer None,
     rule7 unconfirmed_customer None, rule8 utc_runtime unconfirmed_customer None,
     rule9 unconfirmed_customer] = 9"
proof -
  have "status (determineStatus utc_runtime unconfirmed_customer None) =
      ''Scheduled Not Confirmed - Can Confirm''"
    by (simp add: status_select status_chain unconfirmed_rules unconfirmed_days to_number_def)
  with status_first_match [of utc_runtime unconfirmed_customer None] unconfirmed_rules
  show ?thesis by simp
qed

text \<open>
  C2. A customer record with a cash-back amount above 0 and no final-document date has
  status Refund Pending, whatever its other fields and whatever the package info.
\<close>

theorem refund_pending_wins:
  assumes "cash_back_amt c = Some a" and "a > 0" and "\<not> truthy_str (Fnl_Doc_MO_Date c)"
  shows "status (determineStatus rt c p) = ''Refund Pending''"
proof -
  have "rule1 c"
    using assms by (simp add: rule1_def truthy_num_def or_zero_def)
  then show ?thesis
    by (simp add: status_select status_chain)
qed

text \<open>A customer with cash back of 150 who is booked, has a travel rep and travels tomorrow.\<close>

theorem refund_pending_wins_witness:
  "cash_back_amt refund_customer = Some 150 \<and> (150::rat) > 0 \<and>
   \<not> truthy_str (Fnl_Doc_MO_Date refund_customer) \<and>
   status (determineStatus utc_runtime refund_customer None) = ''Refund Pending''"
proof -
  have a: "cash_back_amt refund_customer = Some 150"
    by (simp add: refund_customer_def blank_customer_def)
  have b: "\<not> truthy_str (Fnl_Doc_MO_Date refund_customer)"
    by (simp add: refund_customer_def blank_customer_def truthy_str_def)
  from refund_pending_wins [OF a _ b, of utc_runtime None] a b show ?thesis by simp
qed

text \<open>
  C3, as the source has it. When neither rule 1 nor rule 2 matches, the status is
  Travel Pending exactly when the hotel-booked date and the agency-booked date are both
  set and the day count is a number of at most 14. Rule 3 has no lower bound of its own:
  the day count is at least -7 only because rule 2 did not match, so a travel date one
  to seven days in the past still gives Travel Pending.
\<close>

theorem travel_pending_window:
  assumes "\<not> rule1 c" and "\<not> rule2 rt c"
  shows "status (determineStatus rt c p) = ''Travel Pending'' \<longleftrightarrow>
           truthy_str (date_htl_book c) \<and> truthy_str (date_agncy_book c) \<and>
           (\<exists>d. daysUntilTravel (determineStatus rt c p) = Some (Num d) \<and> - 7 \<le> d \<and> d \<le> 14)"
proof -
  have chain: "status (determineStatus rt c p) = ''Travel Pending'' \<longleftrightarrow> rule3 rt c"
    using assms by (simp add: status_select status_chain)
  have "rule3 rt c \<longleftrightarrow>
          truthy_str (date_htl_book c) \<and> truthy_str (date_agncy_book c) \<and>
          (\<exists>d. daysUntilTravel_of rt c = Some (Num d) \<and> - 7 \<le> d \<and> d \<le> 14)"
  proof (cases "daysUntilTravel_of rt c")
    case None
    then show ?thesis by (simp add: rule3_def)
  next
    case (Some x)
    with assms(2) show ?thesis
      by (cases x) (auto simp: rule3_def rule2_def to_number_def)
  qed
  with chain show ?thesis by (simp add: days_select)
qed

text \<open>A booked customer who travels tomorrow.\<close>

theorem travel_pending_window_witness:
  "\<not> rule1 booked_customer \<and> \<not> rule2 utc_runtime booked_customer \<and>
   daysUntilTravel (determineStatus utc_runtime booked_customer None) = Some (Num 1) \<and>
   status (determineStatus utc_runtime booked_customer None) = ''Travel Pending''"
proof -
  have booked: "truthy_str (date_htl_book booked_customer)"
    "truthy_str (date_agncy_book booked_customer)"
    by (simp_all add: booked_customer_def blank_customer_def truthy_str_def)
  have days: "daysUntilTravel (determineStatus utc_runtime booked_customer None) = Some (Num 1)"
    by (simp add: days_select booked_days)
  from travel_pending_window [OF booked_rules, of None] booked days booked_rules
  show ?thesis by simp
qed

text \<open>
  The sentence as written asks for a day count of at least 0. A booked customer whose
  travel date was three days ago has status Travel Pending all the same.
\<close>

theorem travel_pending_negative_days:
  "\<not> rule1 travelling_customer \<and> \<not> rule2 utc_runtime travelling_customer \<and>
   daysUntilTravel (determineStatus utc_runtime travelling_customer None) = Some (Num (- 3)) \<and>
   status (determineStatus utc_runtime travelling_customer None) = ''Travel Pending''"
  by (simp add: status_select status_chain days_select travelling_rules travelling_days)

section \<open>Deposit reconciliation\<close>







text \<open>
  C5. Raising either paid field, with every other input as it was, never turns complete
  deposits into incomplete ones. This holds for all amounts, and so for the nonnegative
  ones.
\<close>

theorem deposits_complete_monotonic:
  assumes "or_zero (val_dep c) \<le> or_zero v" and "or_zero (conf_deposit c) \<le> or_zero w"
      and "complete (deposits (determineStatus rt c p))"
  shows "complete (deposits (determineStatus rt (c\<lparr>val_dep := v, conf_deposit := w\<rparr>) p))"
  using assms depositsComplete_mono [of c "c\<lparr>val_dep := v, conf_deposit := w\<rparr>" p]
  by (simp add: complete_select paid_update paidValDep_def paidConfDep_def)

text \<open>A customer who paid the 500 that the package asks for, then 600 and 40.\<close>

theorem deposits_complete_monotonic_witness:
  "or_zero (val_dep paid_customer) \<le> or_zero (Some 600) \<and>
   or_zero (conf_deposit paid_customer) \<le> or_zero (Some 40) \<and>
   complete (deposits (determineStatus utc_runtime paid_customer (Some em_package))) \<and>
   complete (deposits (determineStatus utc_runtime
     (paid_customer\<lparr>val_dep := Some 600, conf_deposit := Some 40\<rparr>) (Some em_package)))"
proof -
  have a: "or_zero (val_dep paid_customer) \<le> or_zero (Some 600)"
    and b: "or_zero (conf_deposit paid_customer) \<le> or_zero (Some 40)"
    by (simp_all add: or_zero_def sample_customer_defs)
  have c: "complete (deposits (determineStatus utc_runtime paid_customer (Some em_package)))"
    by (simp add: complete_select depositsComplete_def expectedTotal_def totalPaid_def
        paidValDep_def paidConfDep_def or_zero_def sample_customer_defs em_package_def)
  from deposits_complete_monotonic [OF a b c] a b c show ?thesis by simp
qed

text \<open>
  C6. Two customer records that agree on \<open>val_dep\<close> and \<open>conf_deposit\<close> and come with
  the same package info have the same \<open>deposits.complete\<close>, however they differ in
  the travel-date fields, or in any other field, or in the clock.
\<close>

theorem complete_ignores_dates:
  assumes "val_dep c1 = val_dep c2" and "conf_deposit c1 = conf_deposit c2"
  shows "complete (deposits (determineStatus rt1 c1 p)) = complete (deposits (determineStatus rt2 c2 p))"
  using depositsComplete_cong [OF assms] by (simp add: complete_select)

text \<open>The paid customer without any date, and with all five travel-date fields set.\<close>

theorem complete_ignores_dates_witness:
  "asgn_trv_dt paid_customer \<noteq> asgn_trv_dt dated_customer \<and>
   Fnl_Doc_MO_Date paid_customer \<noteq> Fnl_Doc_MO_Date dated_customer \<and>
   complete (deposits (determineStatus utc_runtime paid_customer (Some em_package))) =
   complete (deposits (determineStatus utc_runtime dated_customer (Some em_package)))"
proof -
  have same: "val_dep paid_customer = val_dep dated_customer"
    "conf_deposit paid_customer = conf_deposit dated_customer"
    by (simp_all add: dated_customer_def)
  have differ: "asgn_trv_dt paid_customer \<noteq> asgn_trv_dt dated_customer"
    "Fnl_Doc_MO_Date paid_customer \<noteq> Fnl_Doc_MO_Date dated_customer"
    by (simp_all add: sample_customer_defs)
  from complete_ignores_dates [OF same, of utc_runtime "Some em_package" utc_runtime] differ
  show ?thesis by simp
qed

section \<open>The day count\<close>

text \<open>
  C7. When rules 1 to 8 do not match and the guard of rule 9 holds (a travel date is
  set, the confirmation code is not CONFIRM, the decision-ready flag is not true), the
  day count is not null, so the comparison with 75 inside rule 9 never sees null; the
  status is the one that comparison selects.
\<close>

theorem rule9_days_not_null:
  assumes "\<not> rule1 c" and "\<not> rule2 rt c" and "\<not> rule3 rt c" and "\<not> rule4 rt c"
      and "\<not> rule5 rt c" and "\<not> rule6 rt c p" and "\<not> rule7 c p" and "\<not> rule8 rt c p"
      and "truthy_str (asgn_trv_dt c)" and "conf_valid_code c \<noteq> Some ''CONFIRM''"
      and "decReady c \<noteq> Some True"
  shows "daysUntilTravel (determineStatus rt c p) \<noteq> None \<and>
         status (determineStatus rt c p) =
           (if num_le (to_number (daysUntilTravel (determineStatus rt c p))) 75
            then ''Scheduled Not Confirmed - Must Reschedule''
            else ''Scheduled Not Confirmed - Can Confirm'')"
proof -
  have "daysUntilDate rt (asgn_trv_dt c) \<noteq> None"
    using assms(9) by (auto simp: daysUntilDate_def truthy_str_def split: option.splits)
  then have "daysUntilTravel_of rt c \<noteq> None"
    using assms(9) by (simp add: daysUntilTravel_of_def)
  moreover have "rule9 c"
    using assms(9-11) by (simp add: rule9_def)
  ultimately show ?thesis
    using assms(1-8) by (simp add: days_select status_select status_chain)
qed

text \<open>The customer whose travel is 100 days away and not confirmed.\<close>

theorem rule9_days_not_null_witness:
  "daysUntilTravel (determineStatus utc_runtime unconfirmed_customer None) = Some (Num 100) \<and>
   status (determineStatus utc_runtime unconfirmed_customer None) =
     ''Scheduled Not Confirmed - Can Confirm''"
proof -
  have guard: "truthy_str (asgn_trv_dt unconfirmed_customer)"
    "conf_valid_code unconfirmed_customer \<noteq> Some ''CONFIRM''"
    "decReady unconfirmed_customer \<noteq> Some True"
    by (simp_all add: sample_customer_defs truthy_str_def)
  from rule9_days_not_null [OF unconfirmed_rules(1-8) guard]
  show ?thesis by (simp add: days_select unconfirmed_days to_number_def)
qed

text \<open>
  What holds of the day count in every process. An absent or empty date has none. For
  a date that parses, both the date and the current time are set to local midnight and
  the count is the ceiling of their difference in days. It is 0 when the date falls on
  today's local calendar day. It is 1 when the date falls on tomorrow's local calendar
  day and today's local day is not longer than 24 hours, that is, when the UTC offset
  at tomorrow's midnight is not below the one at today's.
\<close>

lemma ceil_div_one_day:
  assumes "0 < d" and "d \<le> msPerDay"
  shows "ceil_div d msPerDay = 1"
proof -
  have "(- d) div 86400000 = - 1"
    using assms by (simp add: msPerDay_def)
  then show ?thesis
    by (simp add: ceil_div_def msPerDay_def)
qed

lemma day_count_parts:
  "daysUntilDate rt None = None \<and>
   daysUntilDate rt (Some []) = None \<and>
   (s \<noteq> [] \<and> date_parse rt s = Some target \<longrightarrow>
      daysUntilDate rt (Some s) =
        Some (Num \<lceil>(of_int (setHours0 rt target - setHours0 rt (clock_now rt)) :: real) / of_int msPerDay\<rceil>) \<and>
      (local_day rt target = local_day rt (clock_now rt) \<longrightarrow>
         daysUntilDate rt (Some s) = Some (Num 0)) \<and>
      (local_day rt target = local_day rt (clock_now rt) + 1 \<and>
       tza_local rt (local_day rt (clock_now rt) * msPerDay) \<le>
         tza_local rt (local_day rt target * msPerDay) \<and>
       tza_local rt (local_day rt target * msPerDay) <
         tza_local rt (local_day rt (clock_now rt) * msPerDay) + msPerDay \<longrightarrow>
         daysUntilDate rt (Some s) = Some (Num 1)))"
proof -
  have formula: "daysUntilDate rt (Some s) =
        Some (Num \<lceil>(of_int (setHours0 rt target - setHours0 rt (clock_now rt)) :: real) / of_int msPerDay\<rceil>)"
    if "s \<noteq> []" "date_parse rt s = Some target"
    using that by (simp add: daysUntilDate_def ceil_div_ceiling)
  have today: "daysUntilDate rt (Some s) = Some (Num 0)"
    if "s \<noteq> []" "date_parse rt s = Some target" "local_day rt target = local_day rt (clock_now rt)"
    using that by (simp add: daysUntilDate_def setHours0_same_day [of rt target] ceil_div_def)
  have tomorrow: "daysUntilDate rt (Some s) = Some (Num 1)"
    if "s \<noteq> []" "date_parse rt s = Some target"
      "local_day rt target = local_day rt (clock_now rt) + 1"
      "tza_local rt (local_day rt (clock_now rt) * msPerDay) \<le>
         tza_local rt (local_day rt target * msPerDay)"
      "tza_local rt (local_day rt target * msPerDay) <
         tza_local rt (local_day rt (clock_now rt) * msPerDay) + msPerDay"
  proof -
    have "setHours0 rt target - setHours0 rt (clock_now rt) =
        msPerDay - (tza_local rt (local_day rt target * msPerDay) -
          tza_local rt (local_day rt (clock_now rt) * msPerDay))"
      using that(3) by (simp add: setHours0_def Let_def algebra_simps)
    with that(4,5) have "0 < setHours0 rt target - setHours0 rt (clock_now rt)"
      "setHours0 rt target - setHours0 rt (clock_now rt) \<le> msPerDay"
      by simp_all
    then have "ceil_div (setHours0 rt target - setHours0 rt (clock_now rt)) msPerDay = 1"
      by (rule ceil_div_one_day)
    then show ?thesis
      using that(1,2) by (simp add: daysUntilDate_def)
  qed
  have null: "daysUntilDate rt None = None" "daysUntilDate rt (Some []) = None"
    by (simp_all add: daysUntilDate_def)
  from formula today tomorrow null show ?thesis by blast
qed

text \<open>
  A date-only string is read as UTC midnight. West of UTC that instant lies on the
  local day before the one the string names: at noon of 2026-01-13 at UTC-8 the
  string for 2026-01-14 falls on today's local day, and its day count is 0.
\<close>

lemma date_only_string_counts_zero:
  "date_parse pst_runtime ''2026-01-14'' = Some 1768348800000 \<and>
   local_day pst_runtime 1768348800000 = local_day pst_runtime (clock_now pst_runtime) \<and>
   daysUntilDate pst_runtime (Some ''2026-01-14'') = Some (Num 0)"
  by (simp add: date_defs pst_runtime_def)

text \<open>
  C8. The day count is to be 1 for a date that is tomorrow in the local time of the
  process: the source sets both dates to local midnight in order to count calendar
  days. It then takes the ceiling of the difference in units of 24 hours, and on the
  day the clocks are set back the two midnights are 25 hours apart. At noon of
  2026-11-01 in Los Angeles, noon of 2026-11-02 is tomorrow, and the source counts 2.
\<close>

theorem tomorrow_two_days_when_clock_set_back:
  "date_parse pacific_runtime ''2026-11-02T20:00:00Z'' = Some 1793649600000 \<and>
   local_day pacific_runtime 1793649600000 = local_day pacific_runtime (clock_now pacific_runtime) + 1 \<and>
   daysUntilDate pacific_runtime (Some ''2026-11-02T20:00:00Z'') = Some (Num 2)"
  by (simp add: date_defs pacific_runtime_def)

section \<open>Phone normalisation\<close>

text \<open>
  C9. \<open>cleanPhone\<close> keeps the digits of its input, in order, and nothing else; when
  eleven digits are left and the first is 1, that first digit is dropped. An absent or
  empty input gives the empty string. The three examples of the specification hold.
\<close>

theorem cleanPhone_digits:
  "cleanPhone None = [] \<and>
   cleanPhone (Some []) = [] \<and>
   cleanPhone (Some p) =
     (if length (filter is_digit p) = 11 \<and> hd (filter is_digit p) = CHR ''1''
      then tl (filter is_digit p) else filter is_digit p) \<and>
   cleanPhone (Some ''+1 (805) 555-1234'') = ''8055551234'' \<and>
   cleanPhone (Some ''805-555-1234'') = ''8055551234'' \<and>
   cleanPhone (Some '''') = ''''"
proof -
  have general: "cleanPhone (Some p) =
     (if length (filter is_digit p) = 11 \<and> hd (filter is_digit p) = CHR ''1''
      then tl (filter is_digit p) else filter is_digit p)"
    by (cases "filter is_digit p") (auto simp: cleanPhone_def startsWith_def Let_def drop_Suc)
  have ex1: "cleanPhone (Some ''+1 (805) 555-1234'') = ''8055551234''"
    by (simp add: cleanPhone_def startsWith_def is_digit_def)
  have ex2: "cleanPhone (Some ''805-555-1234'') = ''8055551234''"
    by (simp add: cleanPhone_def startsWith_def is_digit_def)
  show ?thesis
    using general ex1 ex2 by (simp add: cleanPhone_def)
qed

text \<open>Twelve digits that begin with 1 are kept whole; eleven lose the leading 1.\<close>

theorem cleanPhone_digits_witness:
  "cleanPhone (Some ''1-805-555-1234 x9'') = ''180555512349'' \<and>
   cleanPhone (Some ''1.805.555.1234'') = ''8055551234''"
proof -
  have f1: "filter is_digit ''1-805-555-1234 x9'' = ''180555512349''"
    by (simp add: is_digit_def)
  have f2: "filter is_digit ''1.805.555.1234'' = ''18055551234''"
    by (simp add: is_digit_def)
  from cleanPhone_digits [of "''1-805-555-1234 x9''"] cleanPhone_digits [of "''1.805.555.1234''"]
  show ?thesis unfolding f1 f2 by simp
qed

section \<open>Packages without a deposit\<close>

text \<open>
  C10, as the source has it. For a package that the lookup found and whose refundable
  and confirmation deposits are both 0, the deposits of a customer whose total paid is
  not negative are complete, also when both paid fields are 0; such a customer with no
  travel date, on whom rules 1 to 6 do not match, has status Ready to Schedule, not
  Deposit Needed.
\<close>

theorem zero_deposit_package_complete:
  assumes "getPackageFromDestsel query code = Some pkg"
      and "ref_dep pkg = 0" and "deposit pkg = 0"
      and "0 \<le> or_zero (val_dep c) + or_zero (conf_deposit c)"
  shows "complete (deposits (determineStatus rt c (Some pkg))) \<and>
         (\<not> truthy_str (asgn_trv_dt c) \<and> \<not> rule1 c \<and> \<not> rule2 rt c \<and> \<not> rule3 rt c \<and>
          \<not> rule4 rt c \<and> \<not> rule5 rt c \<and> \<not> rule6 rt c (Some pkg) \<longrightarrow>
            status (determineStatus rt c (Some pkg)) = ''Ready to Schedule'')"
proof -
  have "total_expected pkg = 0"
    using package_total [OF assms(1)] assms(2,3) by simp
  then have compl: "depositsComplete c (Some pkg)"
    using assms(4) by (simp add: depositsComplete_def expectedTotal_def totalPaid_def
        paidValDep_def paidConfDep_def)
  then show ?thesis
    by (simp add: complete_select status_select status_chain rule7_def)
qed

text \<open>A customer who has paid nothing towards a package that asks for nothing.\<close>

theorem zero_deposit_package_complete_witness:
  "complete (deposits (determineStatus utc_runtime activated_customer (Some zero_package))) \<and>
   status (determineStatus utc_runtime activated_customer (Some zero_package)) = ''Ready to Schedule''"
proof -
  have fields: "asgn_trv_dt activated_customer = None" "Fnl_Doc_MO_Date activated_customer = None"
    "cash_back_amt activated_customer = None"
    by (simp_all add: activated_customer_def blank_customer_def)
  have paid: "0 \<le> or_zero (val_dep activated_customer) + or_zero (conf_deposit activated_customer)"
    by (simp add: or_zero_def activated_customer_def blank_customer_def)
  have zero: "ref_dep zero_package = 0" "deposit zero_package = 0"
    by (simp_all add: zero_package_def)
  from zero_deposit_package_complete [OF sample_packages(2) zero paid, of utc_runtime]
    no_date_rules [OF fields, of utc_runtime "Some zero_package"]
  show ?thesis by blast
qed

text \<open>
  The sentence as written speaks of every customer record. With a charged-back
  confirmation deposit of -25 the total paid is below the expected 0, the deposits are
  pending and the status is Deposit Needed.
\<close>

theorem zero_deposit_package_pending:
  "getPackageFromDestsel sample_query (pkg_code2 chargeback_customer) = Some zero_package \<and>
   ref_dep zero_package = 0 \<and> deposit zero_package = 0 \<and>
   \<not> truthy_str (asgn_trv_dt chargeback_customer) \<and>
   \<not> rule1 chargeback_customer \<and> \<not> rule2 utc_runtime chargeback_customer \<and>
   \<not> rule3 utc_runtime chargeback_customer \<and> \<not> rule4 utc_runtime chargeback_customer \<and>
   \<not> rule5 utc_runtime chargeback_customer \<and>
   \<not> rule6 utc_runtime chargeback_customer (Some zero_package) \<and>
   \<not> complete (deposits (determineStatus utc_runtime chargeback_customer (Some zero_package))) \<and>
   status (determineStatus utc_runtime chargeback_customer (Some zero_package)) = ''Deposit Needed''"
proof -
  have fields: "asgn_trv_dt chargeback_customer = None" "Fnl_Doc_MO_Date chargeback_customer = None"
    "cash_back_amt chargeback_customer = None" "pkg_code2 chargeback_customer = Some ''ecra''"
    by (simp_all add: chargeback_customer_def blank_customer_def)
  have incomplete: "\<not> depositsComplete chargeback_customer (Some zero_package)"
    by (simp add: depositsComplete_def expectedTotal_def expectedRefDep_def expectedConfDep_def
        totalPaid_def paidValDep_def paidConfDep_def or_zero_def zero_package_def
        chargeback_customer_def blank_customer_def)
  have rest: "\<not> rule7 chargeback_customer (Some zero_package)"
    "\<not> rule8 utc_runtime chargeback_customer (Some zero_package)" "\<not> rule9 chargeback_customer"
    using incomplete by (simp_all add: rule7_def rule8_def rule9_def fields truthy_str_def)
  have zero: "ref_dep zero_package = 0" "deposit zero_package = 0"
    by (simp_all add: zero_package_def)
  show ?thesis
    using no_date_rules [OF fields(1-3), of utc_runtime "Some zero_package"] rest incomplete zero
    by (simp add: fields(4) sample_packages complete_select status_select status_chain)
qed

end
